theory Spec2Isabelle
  imports Main "HOL-Library.Multiset"
begin

section \<open>Data model of the repository executor\<close>

text \<open>
  The model follows the current revision of the package \<open>ghforeach\<close>: the repository
  executor (options, \<open>NewRepositoryExecutor\<close>, \<open>Go\<close>, \<open>getRepositories\<close>, \<open>matchRepo\<close>,
  \<open>execCommand\<close>, \<open>cloneRepo\<close>) and the argument handling of \<open>RunWithArgs\<close>. It is the
  revision whose \<open>Go\<close> takes the context first and whose options include \<open>WithShellPath\<close>,
  as \<open>RunWithArgs\<close> and the integration test call it.

  Go errors are opaque values carrying a message; they are modelled by their message.
  Pointer-typed fields that are \<open>nil\<close> when unset are \<open>option\<close>s; a \<open>nil\<close> map is \<open>None\<close> and
  a map used as a set is a \<open>string set\<close>. Compiled regular expressions belong to the Go
  standard library: their type is the parameter \<open>'re\<close>, and \<open>regexp.Compile\<close> and
  \<open>MatchString\<close> are parameters of the functions that call them.
\<close>

type_synonym error = string

datatype Logger = GlobalLogger | ProductionLogger | DevelopmentLogger

text \<open>A GitHub API client, with the bearer token it was given, if any.\<close>

datatype Client = Client "string option"

text \<open>The fields of \<open>github.Repository\<close> that the program reads.\<close>

record Repository =
  Name :: "string option"
  CloneURL :: "string option"
  Topics :: "string list"

definition GetName :: "Repository \<Rightarrow> string" where
  "GetName repo = (case Name repo of None \<Rightarrow> [] | Some n \<Rightarrow> n)"

definition GetCloneURL :: "Repository \<Rightarrow> string" where
  "GetCloneURL repo = (case CloneURL repo of None \<Rightarrow> [] | Some u \<Rightarrow> u)"

record executionResult =
  Path :: string
  Command :: string
  Stdout :: string
  Stderr :: string
  Error :: "error option"

definition ConsoleOutputFormat :: int where
  "ConsoleOutputFormat = 0"

definition JsonOutputFormat :: int where
  "JsonOutputFormat = 1"

record 're RepositoryExecutor =
  client :: Client
  logger :: Logger
  authUser :: "string option"
  authToken :: "string option"
  nameRegexp :: "'re option"
  nameSet :: "string set option"
  topicRegexp :: "'re option"
  topicSet :: "string set option"
  shellPath :: string
  overwrite :: bool
  cleanup :: bool
  tmpDir :: string
  concurrency :: int
  outputFormat :: int
  org :: "string option"
  user :: "string option"

section \<open>Repository matcher\<close>

text \<open>
  The loop \<open>pass := false; for _, topic := range repo.Topics { if c(topic) { pass = true;
  break } }\<close> of \<open>matchRepo\<close>, returning the final value of \<open>pass\<close>.
\<close>

fun anyTopicPasses :: "(string \<Rightarrow> bool) \<Rightarrow> string list \<Rightarrow> bool" where
  "anyTopicPasses c [] = False"
| "anyTopicPasses c (topic # topics) = (if c topic then True else anyTopicPasses c topics)"

definition matchRepo ::
  "('re \<Rightarrow> string \<Rightarrow> bool) \<Rightarrow> 're RepositoryExecutor \<Rightarrow> Repository \<Rightarrow> bool" where
  "matchRepo MatchString rh repo =
     (if (case nameRegexp rh of None \<Rightarrow> False
          | Some re \<Rightarrow> \<not> MatchString re (GetName repo)) then False
      else if (case nameSet rh of None \<Rightarrow> False
          | Some names \<Rightarrow> GetName repo \<notin> names) then False
      else if (case topicRegexp rh of None \<Rightarrow> False
          | Some re \<Rightarrow> \<not> anyTopicPasses (MatchString re) (Topics repo)) then False
      else if (case topicSet rh of None \<Rightarrow> False
          | Some topics \<Rightarrow> \<not> anyTopicPasses (\<lambda>topic. topic \<in> topics) (Topics repo)) then False
      else True)"

section \<open>Configuration options\<close>

text \<open>
  A \<open>RepositoryExecutorOption\<close> is a Go function from a pointer to the executor to an error:
  it may update the executor and it may fail. Here it returns the executor as it leaves it
  together with the error (\<open>None\<close> for \<open>nil\<close>).
\<close>

type_synonym 're RepositoryExecutorOption =
  "'re RepositoryExecutor \<Rightarrow> 're RepositoryExecutor \<times> error option"

definition WithOrg :: "string \<Rightarrow> 're RepositoryExecutorOption" where
  "WithOrg orgName fre = (fre\<lparr>org := Some orgName\<rparr>, None)"

definition WithUser :: "string \<Rightarrow> 're RepositoryExecutorOption" where
  "WithUser u fre = (fre\<lparr>user := Some u\<rparr>, None)"

definition WithNameRegexp ::
  "(string \<Rightarrow> error + 're) \<Rightarrow> string \<Rightarrow> 're RepositoryExecutorOption" where
  "WithNameRegexp Compile exp fre =
     (case Compile exp of
        Inl err \<Rightarrow> (fre, Some err)
      | Inr regexp \<Rightarrow> (fre\<lparr>nameRegexp := Some regexp\<rparr>, None))"

definition WithNameList :: "string list \<Rightarrow> 're RepositoryExecutorOption" where
  "WithNameList names fre = (fre\<lparr>nameSet := Some (set names)\<rparr>, None)"

definition WithTopicRegexp ::
  "(string \<Rightarrow> error + 're) \<Rightarrow> string \<Rightarrow> 're RepositoryExecutorOption" where
  "WithTopicRegexp Compile exp fre =
     (case Compile exp of
        Inl err \<Rightarrow> (fre, Some err)
      | Inr regexp \<Rightarrow> (fre\<lparr>topicRegexp := Some regexp\<rparr>, None))"

definition WithTopicList :: "string list \<Rightarrow> 're RepositoryExecutorOption" where
  "WithTopicList topics fre = (fre\<lparr>topicSet := Some (set topics)\<rparr>, None)"

definition WithClient :: "Client \<Rightarrow> 're RepositoryExecutorOption" where
  "WithClient c fre = (fre\<lparr>client := c\<rparr>, None)"

definition WithLogger :: "Logger \<Rightarrow> 're RepositoryExecutorOption" where
  "WithLogger l fre = (fre\<lparr>logger := l\<rparr>, None)"

definition WithUserAuth :: "string \<Rightarrow> string \<Rightarrow> 're RepositoryExecutorOption" where
  "WithUserAuth u token fre = (fre\<lparr>authUser := Some u, authToken := Some token\<rparr>, None)"

definition WithOverwrite :: "bool \<Rightarrow> 're RepositoryExecutorOption" where
  "WithOverwrite b fre = (fre\<lparr>overwrite := b\<rparr>, None)"

definition WithCleanup :: "bool \<Rightarrow> 're RepositoryExecutorOption" where
  "WithCleanup b fre = (fre\<lparr>cleanup := b\<rparr>, None)"

definition WithTmpDir :: "string \<Rightarrow> 're RepositoryExecutorOption" where
  "WithTmpDir dir fre = (fre\<lparr>tmpDir := dir\<rparr>, None)"

definition WithConcurrency :: "int \<Rightarrow> 're RepositoryExecutorOption" where
  "WithConcurrency n fre = (fre\<lparr>concurrency := n\<rparr>, None)"

definition WithOutputFormat :: "int \<Rightarrow> 're RepositoryExecutorOption" where
  "WithOutputFormat format fre = (fre\<lparr>outputFormat := format\<rparr>, None)"

definition WithShellPath :: "string \<Rightarrow> 're RepositoryExecutorOption" where
  "WithShellPath p fre = (fre\<lparr>shellPath := p\<rparr>, None)"

text \<open>
  The loop of \<open>NewRepositoryExecutor\<close> over the options: each option is applied to the
  executor the previous ones left; at the first error the function returns \<open>(nil, err)\<close>.
\<close>

fun applyOptions ::
  "'re RepositoryExecutorOption list \<Rightarrow> 're RepositoryExecutor \<Rightarrow>
   're RepositoryExecutor option \<times> error option" where
  "applyOptions [] exec = (Some exec, None)"
| "applyOptions (opt # opts) exec =
     (case opt exec of
        (exec', Some err) \<Rightarrow> (None, Some err)
      | (exec', None) \<Rightarrow> applyOptions opts exec')"

text \<open>
  \<open>NewRepositoryExecutor\<close> returns the pair \<open>(*RepositoryExecutor, error)\<close>. The outcome of
  \<open>os.Getwd\<close> and the function \<open>path.Join\<close> are parameters.
\<close>

definition NewRepositoryExecutor ::
  "(error + string) \<Rightarrow> (string \<Rightarrow> string \<Rightarrow> string) \<Rightarrow> 're RepositoryExecutorOption list \<Rightarrow>
   're RepositoryExecutor option \<times> error option" where
  "NewRepositoryExecutor Getwd Join opts =
     (case Getwd of
        Inl err \<Rightarrow> (None, Some err)
      | Inr wd \<Rightarrow>
          applyOptions opts
            \<lparr>client = Client None, logger = GlobalLogger, authUser = None, authToken = None,
             nameRegexp = None, nameSet = None, topicRegexp = None, topicSet = None,
             shellPath = ''/bin/sh'', overwrite = False, cleanup = False,
             tmpDir = Join wd ''tmp'', concurrency = 1, outputFormat = 0,
             org = None, user = None\<rparr>)"

section \<open>Effects\<close>

text \<open>
  The calls the program makes to the outside world, recorded as events: requests to the
  listing API (with the page asked for), clones, command executions and file-system
  operations, and the error-level log lines. Debug-level log lines are not recorded.
\<close>

datatype ListCall = ListByOrg string | ListByUser string | ListByAuthenticatedUser

record BasicAuth =
  Username :: string
  Password :: string

datatype Event =
    ListRepos ListCall int
  | PlainClone string string "BasicAuth option"
  | RunCommand string "string list" string
  | Stat string
  | RemoveAll string
  | MkdirAll string
  | ReadFile string
  | LogError string

fun isNetworkCall :: "Event \<Rightarrow> bool" where
  "isNetworkCall (ListRepos call page) = True"
| "isNetworkCall (PlainClone dest url auth) = True"
| "isNetworkCall ev = False"

fun isClone :: "Event \<Rightarrow> bool" where
  "isClone (PlainClone dest url auth) = True"
| "isClone ev = False"

fun isRunCommand :: "Event \<Rightarrow> bool" where
  "isRunCommand (RunCommand name args dir) = True"
| "isRunCommand ev = False"

datatype StatResult = StatOk | StatNotExist | StatError error

section \<open>Repository discovery\<close>

text \<open>
  What the outside world answers at one iteration of a listing loop: the context's error if
  the context is done when the loop checks it, and the outcome of the API request
  (the repositories of the page and \<open>resp.NextPage\<close>, or an error).
\<close>

record PageResponse =
  ctxErr :: "error option"
  listResult :: "error + (Repository list \<times> int)"

text \<open>
  The three listing loops (\<open>getRepositoriesForOrg\<close>, \<open>getRepositoriesForUser\<close>,
  \<open>getRepositoriesForAuthenticatedUser\<close>) differ only in the API call. The loop runs until
  the context is done, a request fails or a page has \<open>NextPage = 0\<close>; it consumes one answer
  per iteration. The result is the events, the repositories sent on the channel and the
  returned error; it is \<open>None\<close> when the answers run out before the loop has returned.
\<close>

fun listLoop ::
  "(Repository \<Rightarrow> bool) \<Rightarrow> ListCall \<Rightarrow> int \<Rightarrow> PageResponse list \<Rightarrow>
   (Event list \<times> Repository list \<times> error option) option" where
  "listLoop match call page [] = None"
| "listLoop match call page (r # rs) =
     (case ctxErr r of
        Some err \<Rightarrow> Some ([], [], Some err)
      | None \<Rightarrow>
          (case listResult r of
             Inl err \<Rightarrow> Some ([ListRepos call page], [], Some err)
           | Inr (repos, NextPage) \<Rightarrow>
               if NextPage = 0 then Some ([ListRepos call page], filter match repos, None)
               else
                 (case listLoop match call NextPage rs of
                    None \<Rightarrow> None
                  | Some (evs, sent, err) \<Rightarrow>
                      Some (ListRepos call page # evs, filter match repos @ sent, err))))"

definition getRepositoriesForOrg ::
  "('re \<Rightarrow> string \<Rightarrow> bool) \<Rightarrow> 're RepositoryExecutor \<Rightarrow> string \<Rightarrow> PageResponse list \<Rightarrow>
   (Event list \<times> Repository list \<times> error option) option" where
  "getRepositoriesForOrg MatchString rh orgName pages =
     listLoop (matchRepo MatchString rh) (ListByOrg orgName) 0 pages"

definition getRepositoriesForUser ::
  "('re \<Rightarrow> string \<Rightarrow> bool) \<Rightarrow> 're RepositoryExecutor \<Rightarrow> string \<Rightarrow> PageResponse list \<Rightarrow>
   (Event list \<times> Repository list \<times> error option) option" where
  "getRepositoriesForUser MatchString rh u pages =
     listLoop (matchRepo MatchString rh) (ListByUser u) 0 pages"

definition getRepositoriesForAuthenticatedUser ::
  "('re \<Rightarrow> string \<Rightarrow> bool) \<Rightarrow> 're RepositoryExecutor \<Rightarrow> PageResponse list \<Rightarrow>
   (Event list \<times> Repository list \<times> error option) option" where
  "getRepositoriesForAuthenticatedUser MatchString rh pages =
     listLoop (matchRepo MatchString rh) ListByAuthenticatedUser 0 pages"

definition getRepositories ::
  "('re \<Rightarrow> string \<Rightarrow> bool) \<Rightarrow> 're RepositoryExecutor \<Rightarrow> PageResponse list \<Rightarrow>
   (Event list \<times> Repository list \<times> error option) option" where
  "getRepositories MatchString rh pages =
     (if org rh \<noteq> None then getRepositoriesForOrg MatchString rh (the (org rh)) pages
      else if authUser rh \<noteq> None \<and> authToken rh \<noteq> None \<and> user rh \<noteq> None \<and>
              the (authUser rh) = the (user rh)
        then getRepositoriesForAuthenticatedUser MatchString rh pages
      else if user rh \<noteq> None then getRepositoriesForUser MatchString rh (the (user rh)) pages
      else Some ([], [], Some ''no user or org specified''))"

section \<open>Clone and command execution\<close>

text \<open>
  \<open>cloneRepo\<close> attaches basic-auth credentials when both the auth user and the auth token
  are set and calls \<open>git.PlainCloneContext\<close>; the outcome of the clone is a parameter.
\<close>

definition cloneAuth :: "'re RepositoryExecutor \<Rightarrow> BasicAuth option" where
  "cloneAuth rh =
     (if authUser rh \<noteq> None \<and> authToken rh \<noteq> None
      then Some \<lparr>Username = the (authUser rh), Password = the (authToken rh)\<rparr>
      else None)"

definition cloneRepo ::
  "'re RepositoryExecutor \<Rightarrow> string \<Rightarrow> Repository \<Rightarrow> error option \<Rightarrow> Event list \<times> error option" where
  "cloneRepo rh dest repo outcome =
     (let auth = cloneAuth rh
      in ([PlainClone dest (GetCloneURL repo) auth], outcome))"

text \<open>What a command writes to its standard output and standard error, and the error of
  \<open>cmd.Run\<close> (a non-zero exit status, or a failure to start).\<close>

record CommandOutcome =
  writtenStdout :: string
  writtenStderr :: string
  cmdError :: "error option"

text \<open>
  \<open>execCommand\<close> runs \<open>exec.Command(rh.shellPath, "-c", command)\<close> with \<open>cmd.Dir = dir\<close>
  and the two writers it is given. It returns the event, what the writers received and
  the error.
\<close>

definition execCommand ::
  "'re RepositoryExecutor \<Rightarrow> string \<Rightarrow> string \<Rightarrow> CommandOutcome \<Rightarrow>
   Event list \<times> string \<times> string \<times> error option" where
  "execCommand rh command dir outcome =
     ([RunCommand (shellPath rh) [''-c'', command] dir],
      writtenStdout outcome, writtenStderr outcome, cmdError outcome)"

section \<open>Work coordinator\<close>

text \<open>
  What the outside world answers while one repository received from the repository
  channel is handled: the context's error if the context is done at the \<open>select\<close>, the
  outcome of \<open>os.Stat\<close> on the repository's directory, the outcome of the clone, and the
  outcome of the command. Answers that the code does not ask for are ignored.
\<close>

record RepoResponse =
  ctxDone :: "error option"
  statRepoDir :: StatResult
  cloneOutcome :: "error option"
  commandOutcome :: CommandOutcome

text \<open>The directory is reported missing and the clone fails.\<close>

definition cloneFails :: "RepoResponse \<Rightarrow> bool" where
  "cloneFails resp \<longleftrightarrow> statRepoDir resp = StatNotExist \<and> cloneOutcome resp \<noteq> None"

text \<open>
  The function handed to \<open>repoG.Go\<close> for one repository: its events, the result it sends on
  the result channel (if it sends one) and the error it returns to the error group.
\<close>

record TaskOutcome =
  taskEvents :: "Event list"
  sent :: "executionResult option"
  returned :: "error option"

definition repoTask ::
  "(string \<Rightarrow> string \<Rightarrow> string) \<Rightarrow> 're RepositoryExecutor \<Rightarrow> string \<Rightarrow> Repository \<Rightarrow>
   RepoResponse \<Rightarrow> TaskOutcome" where
  "repoTask Join rh command repo resp =
     (let repoDir = Join (tmpDir rh) (GetName repo);
          (cloneEvents, cloneErr) =
            (if statRepoDir resp = StatNotExist
             then cloneRepo rh repoDir repo (cloneOutcome resp)
             else ([], None))
      in if cloneErr \<noteq> None
         then \<lparr>taskEvents = Stat repoDir # cloneEvents @ [LogError ''error cloning repository''],
               sent = None, returned = None\<rparr>
         else
           (let (execEvents, stdoutBuf, stderrBuf, err) =
                  execCommand rh command repoDir (commandOutcome resp)
            in \<lparr>taskEvents =
                   Stat repoDir # cloneEvents @ execEvents @
                   (if err \<noteq> None then [LogError ''error executing command''] else []) @
                   (if cleanup rh then [RemoveAll repoDir] else []),
                 sent = Some \<lparr>Path = repoDir, Command = command, Stdout = stdoutBuf,
                               Stderr = stderrBuf, Error = err\<rparr>,
                 returned = None\<rparr>))"

text \<open>
  The loop over the repository channel, after \<open>repoG.SetLimit(rh.concurrency)\<close>. A
  repository received while the context is done is logged and not dispatched; any other
  repository is dispatched with \<open>repoG.Go\<close>. With a limit of zero \<open>repoG.Go\<close> never admits a
  function and blocks for ever; with a negative limit there is no bound, and with a
  positive one \<open>repoG.Go\<close> waits for a free slot. The result is the log lines of the loop
  and, for each dispatched repository, the outcome of its task; it is \<open>None\<close> when the loop
  blocks for ever.
\<close>

fun dispatchLoop ::
  "(string \<Rightarrow> string \<Rightarrow> string) \<Rightarrow> 're RepositoryExecutor \<Rightarrow> string \<Rightarrow>
   (Repository \<times> RepoResponse) list \<Rightarrow> (Event list \<times> (Repository \<times> TaskOutcome) list) option" where
  "dispatchLoop Join rh command [] = Some ([], [])"
| "dispatchLoop Join rh command ((repo, resp) # rest) =
     (if ctxDone resp \<noteq> None
      then (case dispatchLoop Join rh command rest of
              None \<Rightarrow> None
            | Some (logs, ts) \<Rightarrow> Some (LogError ''context error'' # logs, ts))
      else if concurrency rh = 0 then None
      else (case dispatchLoop Join rh command rest of
              None \<Rightarrow> None
            | Some (logs, ts) \<Rightarrow> Some (logs, (repo, repoTask Join rh command repo resp) # ts)))"

text \<open>\<open>Wait\<close> of an error group: \<open>nil\<close> if every function returned \<open>nil\<close>, otherwise the
  error of one that did not (here the first in the list).\<close>

definition errgroupWait :: "error option list \<Rightarrow> error option" where
  "errgroupWait rets = (case filter (\<lambda>r. r \<noteq> None) rets of [] \<Rightarrow> None | r # _ \<Rightarrow> r)"

text \<open>
  The second goroutine of \<open>Go\<close>. The result channel receives the results of the tasks; they
  are listed here in dispatch order, while the program delivers them in completion order.
\<close>

record CoordinatorOutcome =
  loopLogs :: "Event list"
  tasks :: "(Repository \<times> TaskOutcome) list"
  resultCh :: "executionResult list"
  waitError :: "error option"

definition workCoordinator ::
  "(string \<Rightarrow> string \<Rightarrow> string) \<Rightarrow> 're RepositoryExecutor \<Rightarrow> string \<Rightarrow>
   (Repository \<times> RepoResponse) list \<Rightarrow> CoordinatorOutcome option" where
  "workCoordinator Join rh command received =
     (case dispatchLoop Join rh command received of
        None \<Rightarrow> None
      | Some (logs, ts) \<Rightarrow>
          Some \<lparr>loopLogs = logs, tasks = ts,
                resultCh = List.map_filter (\<lambda>(repo, t). sent t) ts,
                waitError = errgroupWait (map (\<lambda>(repo, t). returned t) ts)\<rparr>)"

text \<open>The repositories dispatched to a task, and all the events of the tasks.\<close>

definition dispatched :: "CoordinatorOutcome \<Rightarrow> Repository list" where
  "dispatched c = map fst (tasks c)"

definition coordinatorEvents :: "CoordinatorOutcome \<Rightarrow> Event list" where
  "coordinatorEvents c = loopLogs c @ concat (map (\<lambda>(repo, t). taskEvents t) (tasks c))"

section \<open>The run\<close>

text \<open>
  What the outside world answers during one call of \<open>Go\<close>: the outcomes of removing,
  inspecting and creating the working root, the answers to the listing loop, and the
  answers for the k-th repository received from the repository channel.
\<close>

record World =
  removeTmpDir :: "error option"
  statTmpDir :: StatResult
  mkdirTmpDir :: "error option"
  pages :: "PageResponse list"
  repoResponse :: "nat \<Rightarrow> RepoResponse"

record GoOutcome =
  setupEvents :: "Event list"
  discoveryEvents :: "Event list"
  coordinator :: "CoordinatorOutcome option"
  cleanupEvents :: "Event list"
  goError :: "error option"

definition goEvents :: "GoOutcome \<Rightarrow> Event list" where
  "goEvents g =
     setupEvents g @ discoveryEvents g @
     (case coordinator g of None \<Rightarrow> [] | Some c \<Rightarrow> coordinatorEvents c) @ cleanupEvents g"

text \<open>
  \<open>Go\<close>: the working root is removed when \<open>overwrite\<close> is set and created when it does not
  exist; either failure returns at once. Then the three stages run: discovery, the work
  coordinator and the reporter (which only prints and always returns \<open>nil\<close>; it is not
  modelled). The stages run concurrently in the program; the model lists the events of each
  stage separately and claims no order between stages. \<open>Go\<close> returns the error of the
  outer error group, and removes the working root on return when \<open>cleanup\<close> is set.
  The value is \<open>None\<close> when \<open>Go\<close> does not return: discovery has not returned on the
  answers given, or the work coordinator blocks for ever.
\<close>

definition Go ::
  "('re \<Rightarrow> string \<Rightarrow> bool) \<Rightarrow> (string \<Rightarrow> string \<Rightarrow> string) \<Rightarrow> 're RepositoryExecutor \<Rightarrow>
   string \<Rightarrow> World \<Rightarrow> GoOutcome option" where
  "Go MatchString Join rh command w =
     (if overwrite rh \<and> removeTmpDir w \<noteq> None
      then Some \<lparr>setupEvents = [RemoveAll (tmpDir rh)], discoveryEvents = [],
                 coordinator = None, cleanupEvents = [], goError = removeTmpDir w\<rparr>
      else
        (let removal = (if overwrite rh then [RemoveAll (tmpDir rh)] else [])
         in if statTmpDir w = StatNotExist \<and> mkdirTmpDir w \<noteq> None
            then Some \<lparr>setupEvents = removal @ [Stat (tmpDir rh), MkdirAll (tmpDir rh)],
                       discoveryEvents = [], coordinator = None, cleanupEvents = [],
                       goError = mkdirTmpDir w\<rparr>
            else
              (case getRepositories MatchString rh (pages w) of
                 None \<Rightarrow> None
               | Some (listEvents, repos, discoveryErr) \<Rightarrow>
                   (case workCoordinator Join rh command
                           (zip repos (map (repoResponse w) [0..<length repos])) of
                      None \<Rightarrow> None
                    | Some c \<Rightarrow>
                        Some \<lparr>setupEvents =
                                 removal @ Stat (tmpDir rh) #
                                 (if statTmpDir w = StatNotExist then [MkdirAll (tmpDir rh)]
                                  else []),
                               discoveryEvents = listEvents,
                               coordinator = Some c,
                               cleanupEvents =
                                 (if cleanup rh then [RemoveAll (tmpDir rh)] else []),
                               goError = errgroupWait [discoveryErr, waitError c, None]\<rparr>))))"

section \<open>Command-line entry point\<close>

record Args =
  Command :: string
  AuthUser :: "string option"
  AuthToken :: "string option"
  Org :: "string option"
  User :: "string option"
  NameExp :: "string option"
  NameList :: "string option"
  TopicExp :: "string option"
  TopicList :: "string option"
  Shell :: string
  TmpDir :: string
  Cleanup :: bool
  Overwrite :: bool
  NThreads :: int
  Json :: bool
  Debug :: bool

text \<open>
  The library functions and the outside world that \<open>RunWithArgs\<close> depends on: the errors
  of the two logger constructors (\<open>None\<close> when the logger is built), the content of files,
  the working directory, the regular-expression engine, \<open>path.Join\<close>, and the answers
  during \<open>Go\<close>.
\<close>

record 're Platform =
  zapNewDevelopment :: "error option"
  zapNewProduction :: "error option"
  osReadFile :: "string \<Rightarrow> error + string"
  osGetwd :: "error + string"
  regexpCompile :: "string \<Rightarrow> error + 're"
  regexpMatchString :: "'re \<Rightarrow> string \<Rightarrow> bool"
  pathJoin :: "string \<Rightarrow> string \<Rightarrow> string"
  world :: World

text \<open>\<open>strings.Split(s, "\n")\<close>: the pieces of \<open>s\<close> between newlines; one more piece than
  there are newlines.\<close>

fun splitNewline :: "string \<Rightarrow> string list" where
  "splitNewline [] = [[]]"
| "splitNewline (c # cs) =
     (if c = CHR 0x0A then [] # splitNewline cs
      else (case splitNewline cs of
              [] \<Rightarrow> [[c]]
            | piece # pieces \<Rightarrow> (c # piece) # pieces))"

text \<open>
  The block of \<open>RunWithArgs\<close> for a list file: when the argument is set the file is read, a
  read error is returned, and otherwise the option built from the lines is appended.
\<close>

definition listFileOption ::
  "'re Platform \<Rightarrow> string option \<Rightarrow> (string list \<Rightarrow> 're RepositoryExecutorOption) \<Rightarrow>
   Event list \<times> (error + 're RepositoryExecutorOption list)" where
  "listFileOption pf file mk =
     (case file of
        None \<Rightarrow> ([], Inr [])
      | Some p \<Rightarrow>
          (case osReadFile pf p of
             Inl err \<Rightarrow> ([ReadFile p], Inl err)
           | Inr bytes \<Rightarrow> ([ReadFile p], Inr [mk (splitNewline bytes)])))"

text \<open>
  The part of \<open>RunWithArgs\<close> that builds the client and the option list, in the order of
  the source. It returns the events and either the error that \<open>RunWithArgs\<close> returns at
  that point or the option list.
\<close>

definition buildOptions ::
  "'re Platform \<Rightarrow> Args \<Rightarrow> Logger \<Rightarrow>
   Event list \<times> (error + 're RepositoryExecutorOption list)" where
  "buildOptions pf args lg =
     (let cl = (case AuthToken args of None \<Rightarrow> Client None | Some t \<Rightarrow> Client (Some t));
          opts =
            [WithClient cl, WithLogger lg, WithCleanup (Cleanup args),
             WithOverwrite (Overwrite args), WithConcurrency (NThreads args),
             WithTmpDir (TmpDir args), WithShellPath (Shell args)] @
            (if AuthUser args \<noteq> None \<and> AuthToken args \<noteq> None
             then [WithUserAuth (the (AuthToken args)) (the (AuthToken args))] else []) @
            (case Org args of None \<Rightarrow> [] | Some x \<Rightarrow> [WithOrg x]) @
            (case User args of None \<Rightarrow> [] | Some x \<Rightarrow> [WithUser x]) @
            (case NameExp args of None \<Rightarrow> []
             | Some x \<Rightarrow> [WithNameRegexp (regexpCompile pf) x]) @
            (case TopicExp args of None \<Rightarrow> []
             | Some x \<Rightarrow> [WithTopicRegexp (regexpCompile pf) x])
      in case listFileOption pf (NameList args) WithNameList of
           (evs1, Inl err) \<Rightarrow> (evs1, Inl err)
         | (evs1, Inr nameOpts) \<Rightarrow>
             (case listFileOption pf (TopicList args) WithTopicList of
                (evs2, Inl err) \<Rightarrow> (evs1 @ evs2, Inl err)
              | (evs2, Inr topicOpts) \<Rightarrow>
                  (evs1 @ evs2,
                   Inr (opts @ nameOpts @ topicOpts @
                        (if Json args then [WithOutputFormat JsonOutputFormat] else [])))))"

record RunOutcome =
  runEvents :: "Event list"
  goOutcome :: "GoOutcome option"
  runError :: "error option"

text \<open>All the events of a run: those of \<open>RunWithArgs\<close> itself and those of \<open>Go\<close>, when
  \<open>Go\<close> was called.\<close>

definition allEvents :: "RunOutcome \<Rightarrow> Event list" where
  "allEvents r = runEvents r @ (case goOutcome r of None \<Rightarrow> [] | Some g \<Rightarrow> goEvents g)"

text \<open>
  \<open>RunWithArgs\<close>: build the logger, the client and the options, build the executor, check
  the command, call \<open>Go\<close>. The value is \<open>None\<close> when \<open>Go\<close> does not return. The
  executor is never \<open>nil\<close> when the error is \<open>nil\<close>; the model gives that case the error of
  the nil dereference it would be.
\<close>

definition RunWithArgs :: "'re Platform \<Rightarrow> Args \<Rightarrow> RunOutcome option" where
  "RunWithArgs pf args =
     (case (if Debug args then zapNewDevelopment pf else zapNewProduction pf) of
        Some err \<Rightarrow> Some \<lparr>runEvents = [], goOutcome = None, runError = Some err\<rparr>
      | None \<Rightarrow>
          (case buildOptions pf args
                  (if Debug args then DevelopmentLogger else ProductionLogger) of
             (evs, Inl err) \<Rightarrow> Some \<lparr>runEvents = evs, goOutcome = None, runError = Some err\<rparr>
           | (evs, Inr opts) \<Rightarrow>
               (case NewRepositoryExecutor (osGetwd pf) (pathJoin pf) opts of
                  (handler, Some err) \<Rightarrow>
                    Some \<lparr>runEvents = evs, goOutcome = None, runError = Some err\<rparr>
                | (None, None) \<Rightarrow>
                    Some \<lparr>runEvents = evs, goOutcome = None,
                          runError = Some ''nil pointer dereference''\<rparr>
                | (Some handler, None) \<Rightarrow>
                    if length (Args.Command args) = 0
                    then Some \<lparr>runEvents = evs, goOutcome = None,
                               runError = Some ''no command provided''\<rparr>
                    else
                      (case Go (regexpMatchString pf) (pathJoin pf) handler
                              (Args.Command args) (world pf) of
                         None \<Rightarrow> None
                       | Some g \<Rightarrow>
                           Some \<lparr>runEvents = evs, goOutcome = Some g,
                                 runError = goError g\<rparr>))))"

section \<open>Auxiliary predicates\<close>

text \<open>An option that leaves the two credential fields of the executor as they are.\<close>

definition keepsAuth :: "'re RepositoryExecutorOption \<Rightarrow> bool" where
  "keepsAuth opt \<longleftrightarrow>
     (\<forall>fre. authUser (fst (opt fre)) = authUser fre \<and> authToken (fst (opt fre)) = authToken fre)"

section \<open>Concrete inputs\<close>

text \<open>
  Stand-ins for the library functions, used in concrete runs only: a regular-expression
  engine in which a pattern matches the strings that start with it and in which the
  pattern \<open>(\<close> does not compile, and a \<open>path.Join\<close> for clean, non-empty path elements.
\<close>

fun startsWith :: "string \<Rightarrow> string \<Rightarrow> bool" where
  "startsWith [] s = True"
| "startsWith (p # ps) [] = False"
| "startsWith (p # ps) (c # cs) = (p = c \<and> startsWith ps cs)"

definition demoCompile :: "string \<Rightarrow> error + string" where
  "demoCompile exp = (if exp = ''('' then Inl ''missing closing )'' else Inr exp)"

definition demoJoin :: "string \<Rightarrow> string \<Rightarrow> string" where
  "demoJoin dir name = dir @ ''/'' @ name"

definition demoExecutor :: "string RepositoryExecutor" where
  "demoExecutor =
     \<lparr>client = Client None, logger = GlobalLogger, authUser = None, authToken = None,
      nameRegexp = Some ''svc-'', nameSet = None, topicRegexp = None,
      topicSet = Some {''go'', ''rust''},
      shellPath = ''/bin/sh'', overwrite = False, cleanup = False,
      tmpDir = ''tmp'', concurrency = 1, outputFormat = 0,
      org = Some ''acme'', user = None\<rparr>"

text \<open>An executor with all four filters present.\<close>

definition demoAllFilters :: "string RepositoryExecutor" where
  "demoAllFilters =
     demoExecutor\<lparr>nameSet := Some {''svc-a'', ''svc-c''}, topicRegexp := Some ''g''\<rparr>"

definition svcA :: Repository where
  "svcA = \<lparr>Name = Some ''svc-a'', CloneURL = Some ''https://git.example/acme/svc-a.git'',
           Topics = [''docs'', ''go'']\<rparr>"

definition svcB :: Repository where
  "svcB = \<lparr>Name = Some ''svc-b'', CloneURL = Some ''https://git.example/acme/svc-b.git'',
           Topics = []\<rparr>"

definition svcC :: Repository where
  "svcC = \<lparr>Name = Some ''svc-c'', CloneURL = Some ''https://git.example/acme/svc-c.git'',
           Topics = [''rust'']\<rparr>"

definition respPresent :: RepoResponse where
  "respPresent =
     \<lparr>ctxDone = None, statRepoDir = StatOk, cloneOutcome = None,
      commandOutcome = \<lparr>writtenStdout = ''hi'', writtenStderr = [], cmdError = None\<rparr>\<rparr>"

definition respCloneFails :: RepoResponse where
  "respCloneFails =
     \<lparr>ctxDone = None, statRepoDir = StatNotExist,
      cloneOutcome = Some ''authentication required'',
      commandOutcome = \<lparr>writtenStdout = ''hi'', writtenStderr = [], cmdError = None\<rparr>\<rparr>"

definition respCommandFails :: RepoResponse where
  "respCommandFails =
     \<lparr>ctxDone = None, statRepoDir = StatNotExist, cloneOutcome = None,
      commandOutcome =
        \<lparr>writtenStdout = [], writtenStderr = ''boom'', cmdError = Some ''exit status 1''\<rparr>\<rparr>"

definition demoPages :: "PageResponse list" where
  "demoPages =
     [\<lparr>ctxErr = None, listResult = Inr ([svcA, svcB], 2)\<rparr>,
      \<lparr>ctxErr = None, listResult = Inr ([svcC], 0)\<rparr>]"

definition demoWorld :: World where
  "demoWorld =
     \<lparr>removeTmpDir = None, statTmpDir = StatNotExist, mkdirTmpDir = None,
      pages = demoPages,
      repoResponse = (\<lambda>k. if k = 0 then respCloneFails else respCommandFails)\<rparr>"

definition demoArgs :: Args where
  "demoArgs =
     \<lparr>Command = ''echo hi'', AuthUser = Some ''alice'', AuthToken = Some ''t0ken'',
      Org = None, User = Some ''alice'', NameExp = Some ''svc-'', NameList = None,
      TopicExp = None, TopicList = Some ''topics.txt'', Shell = ''/bin/sh'', TmpDir = ''tmp'',
      Cleanup = False, Overwrite = False, NThreads = 1, Json = False, Debug = False\<rparr>"

definition demoPlatform :: "string Platform" where
  "demoPlatform =
     \<lparr>zapNewDevelopment = None, zapNewProduction = None,
      osReadFile = (\<lambda>p. if p = ''topics.txt'' then Inr (''go'' @ [CHR 0x0A] @ ''rust'')
                         else Inl ''no such file or directory''),
      osGetwd = Inr ''/home'', regexpCompile = demoCompile, regexpMatchString = startsWith,
      pathJoin = demoJoin, world = demoWorld\<rparr>"

text \<open>The executor that \<open>RunWithArgs\<close> builds from \<open>demoArgs\<close> with the user \<open>t0ken\<close>, and
  the executor that \<open>NewRepositoryExecutor\<close> builds from the single option \<open>WithOrg acme\<close>.\<close>

definition demoHandler :: "string RepositoryExecutor" where
  "demoHandler =
     \<lparr>client = Client (Some ''t0ken''), logger = ProductionLogger,
      authUser = Some ''t0ken'', authToken = Some ''t0ken'',
      nameRegexp = Some ''svc-'', nameSet = None, topicRegexp = None,
      topicSet = Some {''go'', ''rust''},
      shellPath = ''/bin/sh'', overwrite = False, cleanup = False,
      tmpDir = ''tmp'', concurrency = 1, outputFormat = 0,
      org = None, user = Some ''t0ken''\<rparr>"

definition demoMid :: "string RepositoryExecutor" where
  "demoMid =
     \<lparr>client = Client None, logger = GlobalLogger, authUser = None, authToken = None,
      nameRegexp = None, nameSet = None, topicRegexp = None, topicSet = None,
      shellPath = ''/bin/sh'', overwrite = False, cleanup = False,
      tmpDir = ''/home/tmp'', concurrency = 1, outputFormat = 0,
      org = Some ''acme'', user = None\<rparr>"

section \<open>Properties of the matcher\<close>

lemma anyTopicPasses_iff: "anyTopicPasses c topics \<longleftrightarrow> (\<exists>topic \<in> set topics. c topic)"
  by (induction topics) auto

text \<open>
  Claim C3. \<open>matchRepo\<close> is a total function of the repository and the filter fields alone,
  and it returns true exactly when every present filter passes: a present name pattern
  matches the repository name, a present name set contains the name, a present topic
  pattern matches at least one topic, and a present topic set contains at least one topic.
  Absent filters impose nothing.
\<close>

theorem matchRepo_iff_all_present_filters_pass:
  "matchRepo MatchString rh repo \<longleftrightarrow>
     (\<forall>re. nameRegexp rh = Some re \<longrightarrow> MatchString re (GetName repo)) \<and>
     (\<forall>names. nameSet rh = Some names \<longrightarrow> GetName repo \<in> names) \<and>
     (\<forall>re. topicRegexp rh = Some re \<longrightarrow> (\<exists>topic \<in> set (Topics repo). MatchString re topic)) \<and>
     (\<forall>topics. topicSet rh = Some topics \<longrightarrow> (\<exists>topic \<in> set (Topics repo). topic \<in> topics))"
  by (simp add: matchRepo_def anyTopicPasses_iff split: option.splits)

theorem matchRepo_iff_witness:
  "matchRepo startsWith demoAllFilters svcA \<and>
   nameRegexp demoAllFilters = Some ''svc-'' \<and> startsWith ''svc-'' (GetName svcA) \<and>
   nameSet demoAllFilters = Some {''svc-a'', ''svc-c''} \<and> GetName svcA = ''svc-a'' \<and>
   topicRegexp demoAllFilters = Some ''g'' \<and> startsWith ''g'' ''go'' \<and>
   topicSet demoAllFilters = Some {''go'', ''rust''} \<and> ''go'' \<in> set (Topics svcA) \<and>
   \<not> matchRepo startsWith demoAllFilters svcC"
  using matchRepo_iff_all_present_filters_pass [of startsWith demoAllFilters svcA]
    matchRepo_iff_all_present_filters_pass [of startsWith demoAllFilters svcC]
  by (simp add: svcA_def svcC_def demoAllFilters_def demoExecutor_def GetName_def)

text \<open>
  Claim C8. A repository with no topics does not match when a topic filter (the topic
  pattern or the topic set) is present.
\<close>

theorem matchRepo_no_topics_fails_topic_filter:
  "Topics repo = [] \<Longrightarrow> topicRegexp rh \<noteq> None \<or> topicSet rh \<noteq> None \<Longrightarrow>
   \<not> matchRepo MatchString rh repo"
  by (auto simp: matchRepo_def split: option.splits)

theorem matchRepo_no_topics_witness:
  "Topics svcB = [] \<and> topicRegexp demoAllFilters \<noteq> None \<and> topicSet demoExecutor \<noteq> None \<and>
   \<not> matchRepo startsWith demoAllFilters svcB \<and> \<not> matchRepo startsWith demoExecutor svcB"
  using matchRepo_no_topics_fails_topic_filter [of svcB demoAllFilters startsWith]
    matchRepo_no_topics_fails_topic_filter [of svcB demoExecutor startsWith]
  by (simp add: svcB_def demoAllFilters_def demoExecutor_def)

section \<open>Owner selection\<close>

lemma listLoop_events:
  "listLoop match call page rs = Some (evs, out, err) \<Longrightarrow> ev \<in> set evs \<Longrightarrow>
   \<exists>p. ev = ListRepos call p"
  by (induction match call page rs arbitrary: evs out err rule: listLoop.induct)
     (auto split: option.splits sum.splits prod.splits if_splits)

lemma getRepositories_authenticated_only:
  assumes "getRepositories MatchString rh ps = Some (evs, out, err)"
    and "ListRepos ListByAuthenticatedUser p \<in> set evs"
  shows "org rh = None \<and> authUser rh \<noteq> None \<and> authToken rh \<noteq> None \<and> user rh = authUser rh"
proof -
  have other: "call \<noteq> ListByAuthenticatedUser \<Longrightarrow>
      listLoop (matchRepo MatchString rh) call 0 ps \<noteq> Some (evs, out, err)" for call
    using listLoop_events [of "matchRepo MatchString rh" call 0 ps evs out err] assms(2)
    by auto
  show ?thesis
    using assms other [of "ListByOrg (the (org rh))"] other [of "ListByUser (the (user rh))"]
    by (auto simp: getRepositories_def getRepositoriesForOrg_def getRepositoriesForUser_def
        split: if_splits)
qed

text \<open>
  Claim C4. The owner is resolved in this order. When an organization is set, the
  organization listing runs, whatever the other fields are. Otherwise, when the auth user
  and the auth token are set and the auth user equals the configured user, the listing of
  the authenticated caller runs. Otherwise, when a user is set, the listing of that user
  runs. Otherwise \<open>getRepositories\<close> makes no request and returns the error
  \<open>no user or org specified\<close>.
\<close>

theorem getRepositories_resolution_order:
  "(org rh = Some orgName \<longrightarrow>
      getRepositories MatchString rh ps = getRepositoriesForOrg MatchString rh orgName ps) \<and>
   (org rh = None \<and> authUser rh = Some u \<and> authToken rh = Some token \<and> user rh = Some u \<longrightarrow>
      getRepositories MatchString rh ps = getRepositoriesForAuthenticatedUser MatchString rh ps) \<and>
   (org rh = None \<and> \<not> (authUser rh = Some u \<and> authToken rh \<noteq> None) \<and> user rh = Some u \<longrightarrow>
      getRepositories MatchString rh ps = getRepositoriesForUser MatchString rh u ps) \<and>
   (org rh = None \<and> user rh = None \<longrightarrow>
      getRepositories MatchString rh ps = Some ([], [], Some ''no user or org specified''))"
  by (auto simp: getRepositories_def)

theorem getRepositories_resolution_order_witness:
  "getRepositories startsWith
     (demoExecutor\<lparr>authUser := Some ''alice'', authToken := Some ''t0ken'',
                    user := Some ''alice''\<rparr>) demoPages =
     Some ([ListRepos (ListByOrg ''acme'') 0, ListRepos (ListByOrg ''acme'') 2],
           [svcA, svcC], None) \<and>
   getRepositories startsWith
     (demoExecutor\<lparr>org := None, authUser := Some ''alice'', authToken := Some ''t0ken'',
                    user := Some ''alice''\<rparr>) demoPages =
     Some ([ListRepos ListByAuthenticatedUser 0, ListRepos ListByAuthenticatedUser 2],
           [svcA, svcC], None) \<and>
   getRepositories startsWith
     (demoExecutor\<lparr>org := None, authUser := Some ''t0ken'', authToken := Some ''t0ken'',
                    user := Some ''alice''\<rparr>) demoPages =
     Some ([ListRepos (ListByUser ''alice'') 0, ListRepos (ListByUser ''alice'') 2],
           [svcA, svcC], None) \<and>
   getRepositories startsWith (demoExecutor\<lparr>org := None\<rparr>) demoPages =
     Some ([], [], Some ''no user or org specified'')"
  using
    getRepositories_resolution_order
      [where rh = "demoExecutor\<lparr>authUser := Some ''alice'', authToken := Some ''t0ken'',
                                user := Some ''alice''\<rparr>"
         and orgName = "''acme''" and MatchString = startsWith and ps = demoPages]
    getRepositories_resolution_order
      [where rh = "demoExecutor\<lparr>org := None, authUser := Some ''alice'',
                                authToken := Some ''t0ken'', user := Some ''alice''\<rparr>"
         and u = "''alice''" and token = "''t0ken''" and MatchString = startsWith
         and ps = demoPages]
    getRepositories_resolution_order
      [where rh = "demoExecutor\<lparr>org := None, authUser := Some ''t0ken'',
                                authToken := Some ''t0ken'', user := Some ''alice''\<rparr>"
         and u = "''alice''" and MatchString = startsWith and ps = demoPages]
    getRepositories_resolution_order
      [where rh = "demoExecutor\<lparr>org := None\<rparr>" and MatchString = startsWith
         and ps = demoPages]
  by (simp add: demoExecutor_def demoPages_def svcA_def svcB_def svcC_def
      getRepositoriesForOrg_def getRepositoriesForUser_def
      getRepositoriesForAuthenticatedUser_def matchRepo_def GetName_def)

section \<open>Building the configuration\<close>

lemma applyOptions_append:
  "applyOptions (pre @ post) exec =
     (case applyOptions pre exec of (Some mid, None) \<Rightarrow> applyOptions post mid | r \<Rightarrow> r)"
  by (induction pre arbitrary: exec) (auto split: prod.splits option.splits)

lemma applyOptions_keepsAuth:
  "\<forall>opt \<in> set opts. keepsAuth opt \<Longrightarrow> applyOptions opts exec = (Some h, e) \<Longrightarrow>
   authUser h = authUser exec \<and> authToken h = authToken exec"
proof (induction opts arbitrary: exec)
  case Nil
  then show ?case by simp
next
  case (Cons opt opts)
  obtain exec' e' where step: "opt exec = (exec', e')" by (cases "opt exec")
  with Cons.prems(2) have rest: "applyOptions opts exec' = (Some h, e)"
    by (auto split: option.splits)
  from Cons.prems(1) step have "authUser exec' = authUser exec \<and> authToken exec' = authToken exec"
    by (auto simp: keepsAuth_def dest: spec [of _ exec])
  moreover from Cons.IH [OF _ rest] Cons.prems(1)
  have "authUser h = authUser exec' \<and> authToken h = authToken exec'" by simp
  ultimately show ?case by simp
qed

lemma keepsAuth_options:
  "keepsAuth (WithOrg x)" "keepsAuth (WithUser x)"
  "keepsAuth (WithNameRegexp Compile x)" "keepsAuth (WithTopicRegexp Compile x)"
  "keepsAuth (WithNameList xs)" "keepsAuth (WithTopicList xs)"
  "keepsAuth (WithOutputFormat n)"
  by (simp_all add: keepsAuth_def WithOrg_def WithUser_def WithNameRegexp_def
      WithTopicRegexp_def WithNameList_def WithTopicList_def WithOutputFormat_def
      split: sum.splits)

lemma listFileOption_keepsAuth:
  "listFileOption pf file mk = (evs, Inr os) \<Longrightarrow> (\<And>xs. keepsAuth (mk xs)) \<Longrightarrow>
   \<forall>opt \<in> set os. keepsAuth opt"
  by (auto simp: listFileOption_def split: option.splits sum.splits)

lemma listFileOption_events:
  "listFileOption pf file mk = (evs, r) \<Longrightarrow> ev \<in> set evs \<Longrightarrow> \<not> isNetworkCall ev"
  by (auto simp: listFileOption_def split: option.splits sum.splits)

lemma buildOptions_events:
  "buildOptions pf args lg = (evs, r) \<Longrightarrow> ev \<in> set evs \<Longrightarrow> \<not> isNetworkCall ev"
  by (auto simp: buildOptions_def Let_def split: prod.splits sum.splits
      dest: listFileOption_events)

lemma buildOptions_auth_shape:
  assumes "buildOptions pf args lg = (evs, Inr opts)"
    and "AuthUser args = Some u" and "AuthToken args = Some token"
  shows "\<exists>post. opts =
           [WithClient (Client (Some token)), WithLogger lg, WithCleanup (Cleanup args),
             WithOverwrite (Overwrite args), WithConcurrency (NThreads args),
             WithTmpDir (TmpDir args), WithShellPath (Shell args),
             WithUserAuth token token] @ post \<and> (\<forall>opt \<in> set post. keepsAuth opt)"
proof -
  obtain evs1 nameOpts evs2 topicOpts
    where n: "listFileOption pf (NameList args) WithNameList = (evs1, Inr nameOpts)"
      and t: "listFileOption pf (TopicList args) WithTopicList = (evs2, Inr topicOpts)"
    using assms(1)
    by (auto simp: buildOptions_def Let_def split: prod.splits sum.splits)
  have kn: "\<forall>opt \<in> set nameOpts. keepsAuth opt"
    using listFileOption_keepsAuth [OF n] keepsAuth_options by blast
  have kt: "\<forall>opt \<in> set topicOpts. keepsAuth opt"
    using listFileOption_keepsAuth [OF t] keepsAuth_options by blast
  let ?post =
    "(case Org args of None \<Rightarrow> [] | Some x \<Rightarrow> [WithOrg x]) @
     (case User args of None \<Rightarrow> [] | Some x \<Rightarrow> [WithUser x]) @
     (case NameExp args of None \<Rightarrow> [] | Some x \<Rightarrow> [WithNameRegexp (regexpCompile pf) x]) @
     (case TopicExp args of None \<Rightarrow> [] | Some x \<Rightarrow> [WithTopicRegexp (regexpCompile pf) x]) @
     nameOpts @ topicOpts @
     (if Json args then [WithOutputFormat JsonOutputFormat] else [])"
  have "opts = [WithClient (Client (Some token)), WithLogger lg, WithCleanup (Cleanup args),
             WithOverwrite (Overwrite args), WithConcurrency (NThreads args),
             WithTmpDir (TmpDir args), WithShellPath (Shell args),
             WithUserAuth token token] @ ?post"
    using assms n t by (simp add: buildOptions_def Let_def)
  moreover have "\<forall>opt \<in> set ?post. keepsAuth opt"
    using kn kt keepsAuth_options by (auto split: option.splits)
  ultimately show ?thesis by blast
qed

lemma RunWithArgs_credentials:
  assumes b: "buildOptions pf args lg = (evs, Inr opts)"
    and u: "AuthUser args = Some u" and t: "AuthToken args = Some token"
    and n: "NewRepositoryExecutor Getwd Join opts = (Some handler, e)"
  shows "authUser handler = Some token \<and> authToken handler = Some token"
proof -
  from buildOptions_auth_shape [OF b u t] obtain post where
    opts: "opts = [WithClient (Client (Some token)), WithLogger lg, WithCleanup (Cleanup args),
             WithOverwrite (Overwrite args), WithConcurrency (NThreads args),
             WithTmpDir (TmpDir args), WithShellPath (Shell args),
             WithUserAuth token token] @ post" and k: "\<forall>opt \<in> set post. keepsAuth opt"
    by blast
  from n obtain wd where wd: "Getwd = Inr wd"
    by (cases Getwd) (auto simp: NewRepositoryExecutor_def)
  from n obtain mid where mid: "applyOptions post mid = (Some handler, e)"
     and auth: "authUser mid = Some token \<and> authToken mid = Some token"
    unfolding opts wd NewRepositoryExecutor_def
    by (simp add: WithClient_def WithLogger_def WithCleanup_def WithOverwrite_def
        WithConcurrency_def WithTmpDir_def WithShellPath_def WithUserAuth_def)
  from applyOptions_keepsAuth [OF k mid] auth show ?thesis by simp
qed

lemma NewRepositoryExecutor_first_failure:
  assumes "NewRepositoryExecutor Getwd Join pre = (Some mid, None)"
    and "snd (opt mid) = Some err"
  shows "NewRepositoryExecutor Getwd Join (pre @ opt # post) = (None, Some err)"
proof -
  from assms(1) obtain wd where wd: "Getwd = Inr wd"
    by (cases Getwd) (auto simp: NewRepositoryExecutor_def)
  obtain mid' where "opt mid = (mid', Some err)"
    using assms(2) by (cases "opt mid") auto
  then show ?thesis
    using assms(1) by (simp add: NewRepositoryExecutor_def wd applyOptions_append)
qed

lemma RunWithArgs_build_failure:
  assumes "(if Debug args then zapNewDevelopment pf else zapNewProduction pf) = None"
    and "buildOptions pf args (if Debug args then DevelopmentLogger else ProductionLogger) =
           (evs, Inr opts)"
    and "NewRepositoryExecutor (osGetwd pf) (pathJoin pf) opts = (r, Some err)"
  shows "RunWithArgs pf args = Some \<lparr>runEvents = evs, goOutcome = None, runError = Some err\<rparr>"
  using assms by (simp add: RunWithArgs_def split: option.splits)

text \<open>
  Claim C5. Building the configuration fails atomically. When the options before an option
  succeed and that option fails on the executor they built, \<open>NewRepositoryExecutor\<close> returns
  no executor and the error of that option, whatever options follow it; an option that
  does not compile its regular expression is such an option on every executor. When the
  build fails inside \<open>RunWithArgs\<close>, \<open>RunWithArgs\<close> returns that error, \<open>Go\<close> is not
  called, and no event of the run is a request to the listing API or a clone.
\<close>

theorem NewRepositoryExecutor_fails_atomically:
  "(NewRepositoryExecutor Getwd Join pre = (Some mid, None) \<and> snd (opt mid) = Some err \<longrightarrow>
      NewRepositoryExecutor Getwd Join (pre @ opt # post) = (None, Some err)) \<and>
   (Compile exp = Inl err \<longrightarrow>
      snd (WithNameRegexp Compile exp mid) = Some err \<and>
      snd (WithTopicRegexp Compile exp mid) = Some err) \<and>
   ((if Debug args then zapNewDevelopment pf else zapNewProduction pf) = None \<and>
    buildOptions pf args (if Debug args then DevelopmentLogger else ProductionLogger) =
      (evs, Inr opts) \<and>
    NewRepositoryExecutor (osGetwd pf) (pathJoin pf) opts = (r, Some err') \<longrightarrow>
      RunWithArgs pf args =
        Some \<lparr>runEvents = evs, goOutcome = None, runError = Some err'\<rparr> \<and>
      filter isNetworkCall
        (allEvents \<lparr>runEvents = evs, goOutcome = None, runError = Some err'\<rparr>) = [])"
proof (intro conjI impI)
  assume "NewRepositoryExecutor Getwd Join pre = (Some mid, None) \<and> snd (opt mid) = Some err"
  then show "NewRepositoryExecutor Getwd Join (pre @ opt # post) = (None, Some err)"
    using NewRepositoryExecutor_first_failure by blast
next
  assume "Compile exp = Inl err"
  then show "snd (WithNameRegexp Compile exp mid) = Some err"
    by (simp add: WithNameRegexp_def)
next
  assume "Compile exp = Inl err"
  then show "snd (WithTopicRegexp Compile exp mid) = Some err"
    by (simp add: WithTopicRegexp_def)
next
  assume a: "(if Debug args then zapNewDevelopment pf else zapNewProduction pf) = None \<and>
    buildOptions pf args (if Debug args then DevelopmentLogger else ProductionLogger) =
      (evs, Inr opts) \<and>
    NewRepositoryExecutor (osGetwd pf) (pathJoin pf) opts = (r, Some err')"
  then show "RunWithArgs pf args =
        Some \<lparr>runEvents = evs, goOutcome = None, runError = Some err'\<rparr>"
    using RunWithArgs_build_failure by blast
next
  assume a: "(if Debug args then zapNewDevelopment pf else zapNewProduction pf) = None \<and>
    buildOptions pf args (if Debug args then DevelopmentLogger else ProductionLogger) =
      (evs, Inr opts) \<and>
    NewRepositoryExecutor (osGetwd pf) (pathJoin pf) opts = (r, Some err')"
  then have "\<forall>ev \<in> set evs. \<not> isNetworkCall ev"
    using buildOptions_events by blast
  then show "filter isNetworkCall
        (allEvents \<lparr>runEvents = evs, goOutcome = None, runError = Some err'\<rparr>) = []"
    by (simp add: allEvents_def filter_empty_conv)
qed

theorem NewRepositoryExecutor_fails_atomically_witness:
  "NewRepositoryExecutor (Inr ''/home'') demoJoin [WithOrg ''acme''] = (Some demoMid, None) \<and>
   demoCompile ''('' = Inl ''missing closing )'' \<and>
   NewRepositoryExecutor (Inr ''/home'') demoJoin
     [WithOrg ''acme'', WithNameRegexp demoCompile ''('', WithUser ''bob''] =
     (None, Some ''missing closing )'') \<and>
   RunWithArgs demoPlatform (demoArgs\<lparr>NameExp := Some ''(''\<rparr>) =
     Some \<lparr>runEvents = [ReadFile ''topics.txt''], goOutcome = None,
           runError = Some ''missing closing )''\<rparr>"
proof -
  have pre: "NewRepositoryExecutor (Inr ''/home'') demoJoin [WithOrg ''acme''] =
               (Some demoMid, None)"
    by (simp add: NewRepositoryExecutor_def WithOrg_def demoMid_def demoJoin_def)
  have bad: "demoCompile ''('' = Inl ''missing closing )''"
    by (simp add: demoCompile_def)
  have lg: "(if Debug (demoArgs\<lparr>NameExp := Some ''(''\<rparr>) then zapNewDevelopment demoPlatform
             else zapNewProduction demoPlatform) = None"
    by (simp add: demoArgs_def demoPlatform_def)
  have build: "buildOptions demoPlatform (demoArgs\<lparr>NameExp := Some ''(''\<rparr>)
       (if Debug (demoArgs\<lparr>NameExp := Some ''(''\<rparr>) then DevelopmentLogger
        else ProductionLogger) =
     ([ReadFile ''topics.txt''],
      Inr [WithClient (Client (Some ''t0ken'')), WithLogger ProductionLogger,
           WithCleanup False, WithOverwrite False, WithConcurrency 1, WithTmpDir ''tmp'',
           WithShellPath ''/bin/sh'', WithUserAuth ''t0ken'' ''t0ken'', WithUser ''alice'',
           WithNameRegexp demoCompile ''('', WithTopicList [''go'', ''rust'']])"
    by (simp add: buildOptions_def listFileOption_def demoArgs_def demoPlatform_def)
  have new: "NewRepositoryExecutor (osGetwd demoPlatform) (pathJoin demoPlatform)
       [WithClient (Client (Some ''t0ken'')), WithLogger ProductionLogger,
        WithCleanup False, WithOverwrite False, WithConcurrency 1, WithTmpDir ''tmp'',
        WithShellPath ''/bin/sh'', WithUserAuth ''t0ken'' ''t0ken'', WithUser ''alice'',
        WithNameRegexp demoCompile ''('', WithTopicList [''go'', ''rust'']] =
     (None, Some ''missing closing )'')"
    by (simp add: NewRepositoryExecutor_def demoPlatform_def WithClient_def WithLogger_def
        WithCleanup_def WithOverwrite_def WithConcurrency_def WithTmpDir_def
        WithShellPath_def WithUserAuth_def WithUser_def WithNameRegexp_def bad)
  show ?thesis
    using NewRepositoryExecutor_fails_atomically
      [where Getwd = "Inr ''/home''" and Join = demoJoin and pre = "[WithOrg ''acme'']"
         and mid = demoMid and opt = "WithNameRegexp demoCompile ''(''"
         and err = "''missing closing )''" and post = "[WithUser ''bob'']"
         and Compile = demoCompile and exp = "''(''"
         and args = "demoArgs\<lparr>NameExp := Some ''(''\<rparr>" and pf = demoPlatform
         and evs = "[ReadFile ''topics.txt'']" and r = None
         and err' = "''missing closing )''"]
      pre bad lg build new
    by simp
qed

text \<open>
  Claim C10. When both an auth user and an auth token are supplied, the executor that
  \<open>RunWithArgs\<close> builds has the token in both credential fields, whatever the auth user is.
  So a clone authenticates with the token as user name and as password, the listing of the
  authenticated caller runs when no organization is set and the configured user is the
  token, and a request to the listing of the authenticated caller is made only if the
  configured user is the token.
\<close>

theorem RunWithArgs_installs_token_as_auth_user:
  assumes "AuthUser args = Some u" and "AuthToken args = Some token"
    and "buildOptions pf args lg = (evs, Inr opts)"
    and "NewRepositoryExecutor Getwd Join opts = (Some handler, e)"
  shows "authUser handler = Some token \<and> authToken handler = Some token \<and>
     fst (cloneRepo handler dest repo outcome) =
       [PlainClone dest (GetCloneURL repo) (Some \<lparr>Username = token, Password = token\<rparr>)] \<and>
     (org handler = None \<and> user handler = Some token \<longrightarrow>
        getRepositories MatchString handler ps =
          getRepositoriesForAuthenticatedUser MatchString handler ps) \<and>
     (getRepositories MatchString handler ps = Some (levs, out, err) \<and>
      ListRepos ListByAuthenticatedUser p \<in> set levs \<longrightarrow>
        org handler = None \<and> user handler = Some token)"
proof -
  have auth: "authUser handler = Some token \<and> authToken handler = Some token"
    using RunWithArgs_credentials [OF assms(3) assms(1) assms(2) assms(4)] .
  have clone: "fst (cloneRepo handler dest repo outcome) =
       [PlainClone dest (GetCloneURL repo) (Some \<lparr>Username = token, Password = token\<rparr>)]"
    using auth by (simp add: cloneRepo_def cloneAuth_def)
  have sel: "org handler = None \<and> user handler = Some token \<longrightarrow>
        getRepositories MatchString handler ps =
          getRepositoriesForAuthenticatedUser MatchString handler ps"
    using auth by (simp add: getRepositories_def)
  have only: "getRepositories MatchString handler ps = Some (levs, out, err) \<and>
      ListRepos ListByAuthenticatedUser p \<in> set levs \<longrightarrow>
        org handler = None \<and> user handler = Some token"
    using getRepositories_authenticated_only [of MatchString handler ps levs out err p] auth
    by auto
  from auth clone sel only show ?thesis by blast
qed

theorem RunWithArgs_installs_token_witness:
  "AuthUser (demoArgs\<lparr>User := Some ''t0ken''\<rparr>) = Some ''alice'' \<and>
   AuthToken (demoArgs\<lparr>User := Some ''t0ken''\<rparr>) = Some ''t0ken'' \<and>
   authUser demoHandler = Some ''t0ken'' \<and> authToken demoHandler = Some ''t0ken'' \<and>
   fst (cloneRepo demoHandler ''tmp/svc-a'' svcA None) =
     [PlainClone ''tmp/svc-a'' (GetCloneURL svcA)
        (Some \<lparr>Username = ''t0ken'', Password = ''t0ken''\<rparr>)] \<and>
   getRepositories startsWith demoHandler demoPages =
     Some ([ListRepos ListByAuthenticatedUser 0, ListRepos ListByAuthenticatedUser 2],
           [svcA, svcC], None)"
proof -
  have build: "buildOptions demoPlatform (demoArgs\<lparr>User := Some ''t0ken''\<rparr>) ProductionLogger =
     ([ReadFile ''topics.txt''],
      Inr [WithClient (Client (Some ''t0ken'')), WithLogger ProductionLogger,
           WithCleanup False, WithOverwrite False, WithConcurrency 1, WithTmpDir ''tmp'',
           WithShellPath ''/bin/sh'', WithUserAuth ''t0ken'' ''t0ken'', WithUser ''t0ken'',
           WithNameRegexp demoCompile ''svc-'', WithTopicList [''go'', ''rust'']])"
    by (simp add: buildOptions_def listFileOption_def demoArgs_def demoPlatform_def)
  have new: "NewRepositoryExecutor (Inr ''/home'') demoJoin
       [WithClient (Client (Some ''t0ken'')), WithLogger ProductionLogger,
        WithCleanup False, WithOverwrite False, WithConcurrency 1, WithTmpDir ''tmp'',
        WithShellPath ''/bin/sh'', WithUserAuth ''t0ken'' ''t0ken'', WithUser ''t0ken'',
        WithNameRegexp demoCompile ''svc-'', WithTopicList [''go'', ''rust'']] =
     (Some demoHandler, None)"
    by (simp add: NewRepositoryExecutor_def WithClient_def WithLogger_def
        WithCleanup_def WithOverwrite_def WithConcurrency_def WithTmpDir_def
        WithShellPath_def WithUserAuth_def WithUser_def WithNameRegexp_def WithTopicList_def
        demoCompile_def demoHandler_def)
  have u: "AuthUser (demoArgs\<lparr>User := Some ''t0ken''\<rparr>) = Some ''alice''"
    and t: "AuthToken (demoArgs\<lparr>User := Some ''t0ken''\<rparr>) = Some ''t0ken''"
    by (simp_all add: demoArgs_def)
  have run: "getRepositories startsWith demoHandler demoPages =
     Some ([ListRepos ListByAuthenticatedUser 0, ListRepos ListByAuthenticatedUser 2],
           [svcA, svcC], None)"
    by (simp add: getRepositories_def getRepositoriesForAuthenticatedUser_def demoHandler_def
        demoPages_def svcA_def svcB_def svcC_def matchRepo_def GetName_def)
  have sel: "org demoHandler = None \<and> user demoHandler = Some ''t0ken''"
    by (simp add: demoHandler_def)
  show ?thesis
    using RunWithArgs_installs_token_as_auth_user
      [OF u t build new, where dest = "''tmp/svc-a''" and repo = svcA and outcome = None
         and MatchString = startsWith and ps = demoPages
         and levs = "[ListRepos ListByAuthenticatedUser 0, ListRepos ListByAuthenticatedUser 2]"
         and out = "[svcA, svcC]" and err = None and p = 0]
      u t run sel
    by simp
qed

section \<open>The work coordinator\<close>

lemma repoTask_cloneFails:
  "cloneFails resp \<Longrightarrow>
   repoTask Join rh command repo resp =
     \<lparr>taskEvents = [Stat (Join (tmpDir rh) (GetName repo)),
                    PlainClone (Join (tmpDir rh) (GetName repo)) (GetCloneURL repo) (cloneAuth rh),
                    LogError ''error cloning repository''],
      sent = None, returned = None\<rparr>"
  by (auto simp: repoTask_def cloneFails_def cloneRepo_def Let_def)

lemma repoTask_sent:
  "\<not> cloneFails resp \<Longrightarrow>
   sent (repoTask Join rh command repo resp) =
     Some \<lparr>Path = Join (tmpDir rh) (GetName repo), Command = command,
           Stdout = writtenStdout (commandOutcome resp),
           Stderr = writtenStderr (commandOutcome resp),
           Error = cmdError (commandOutcome resp)\<rparr>"
  by (auto simp: repoTask_def cloneFails_def cloneRepo_def execCommand_def Let_def)

lemma repoTask_returned: "returned (repoTask Join rh command repo resp) = None"
  by (simp add: repoTask_def cloneRepo_def execCommand_def Let_def split: prod.splits)

lemma repoTask_run_events:
  "\<not> cloneFails resp \<Longrightarrow>
   filter isRunCommand (taskEvents (repoTask Join rh command repo resp)) =
     [RunCommand (shellPath rh) [''-c'', command] (Join (tmpDir rh) (GetName repo))]"
  by (auto simp: repoTask_def cloneFails_def cloneRepo_def execCommand_def Let_def)

lemma repoTask_clone_events:
  "filter isClone (taskEvents (repoTask Join rh command repo resp)) =
     (if statRepoDir resp = StatNotExist
      then [PlainClone (Join (tmpDir rh) (GetName repo)) (GetCloneURL repo) (cloneAuth rh)]
      else [])"
  by (auto simp: repoTask_def cloneRepo_def execCommand_def Let_def)

lemma dispatchLoop_admitting:
  "concurrency rh \<noteq> 0 \<Longrightarrow>
   dispatchLoop Join rh command received =
     Some (map (\<lambda>x. LogError ''context error'')
             (filter (\<lambda>(repo, resp). ctxDone resp \<noteq> None) received),
           map (\<lambda>(repo, resp). (repo, repoTask Join rh command repo resp))
             (filter (\<lambda>(repo, resp). ctxDone resp = None) received))"
  by (induction received) auto

lemma dispatchLoop_tasks:
  "dispatchLoop Join rh command received = Some (logs, ts) \<Longrightarrow>
   ts = map (\<lambda>(repo, resp). (repo, repoTask Join rh command repo resp))
          (filter (\<lambda>(repo, resp). ctxDone resp = None) received)"
  by (induction received arbitrary: logs ts) (auto split: if_splits option.splits)

lemma dispatchLoop_logs:
  "dispatchLoop Join rh command received = Some (logs, ts) \<Longrightarrow> filter isClone logs = []"
  by (induction received arbitrary: logs ts) (auto split: if_splits option.splits)

lemma errgroupWait_all_None: "\<forall>r \<in> set rets. r = None \<Longrightarrow> errgroupWait rets = None"
  by (induction rets) (auto simp: errgroupWait_def)

lemma map_filter_sent:
  "List.map_filter (\<lambda>(repo, t). sent t)
     (map (\<lambda>(repo, resp). (repo, repoTask Join rh command repo resp)) xs) =
   map (\<lambda>(repo, resp).
          \<lparr>Path = Join (tmpDir rh) (GetName repo), Command = command,
           Stdout = writtenStdout (commandOutcome resp),
           Stderr = writtenStderr (commandOutcome resp),
           Error = cmdError (commandOutcome resp)\<rparr>)
       (filter (\<lambda>(repo, resp). \<not> cloneFails resp) xs)"
proof (induction xs)
  case Nil
  show ?case by simp
next
  case (Cons x xs)
  obtain repo resp where x: "x = (repo, resp)" by (cases x)
  show ?case
  proof (cases "cloneFails resp")
    case True
    then show ?thesis using Cons.IH by (simp add: x repoTask_cloneFails)
  next
    case False
    then show ?thesis using Cons.IH by (simp add: x repoTask_sent)
  qed
qed

lemma clone_events_of_tasks:
  "filter isClone
     (concat (map (\<lambda>(repo, t). taskEvents t)
        (map (\<lambda>(repo, resp). (repo, repoTask Join rh command repo resp)) xs))) =
   map (\<lambda>(repo, resp).
          PlainClone (Join (tmpDir rh) (GetName repo)) (GetCloneURL repo) (cloneAuth rh))
       (filter (\<lambda>(repo, resp). statRepoDir resp = StatNotExist) xs)"
proof (induction xs)
  case Nil
  show ?case by simp
next
  case (Cons x xs)
  obtain repo resp where x: "x = (repo, resp)" by (cases x)
  show ?case using Cons.IH by (simp add: x repoTask_clone_events)
qed

lemma workCoordinator_Some:
  assumes "workCoordinator Join rh command received = Some c"
  shows "tasks c = map (\<lambda>(repo, resp). (repo, repoTask Join rh command repo resp))
                     (filter (\<lambda>(repo, resp). ctxDone resp = None) received)"
    and "resultCh c = map (\<lambda>(repo, resp).
          \<lparr>Path = Join (tmpDir rh) (GetName repo), Command = command,
           Stdout = writtenStdout (commandOutcome resp),
           Stderr = writtenStderr (commandOutcome resp),
           Error = cmdError (commandOutcome resp)\<rparr>)
       (filter (\<lambda>(repo, resp). ctxDone resp = None \<and> \<not> cloneFails resp) received)"
    and "waitError c = None"
    and "filter isClone (loopLogs c) = []"
proof -
  from assms obtain logs ts where d: "dispatchLoop Join rh command received = Some (logs, ts)"
    and c: "c = \<lparr>loopLogs = logs, tasks = ts,
                resultCh = List.map_filter (\<lambda>(repo, t). sent t) ts,
                waitError = errgroupWait (map (\<lambda>(repo, t). returned t) ts)\<rparr>"
    by (auto simp: workCoordinator_def split: option.splits)
  note ts = dispatchLoop_tasks [OF d]
  show "tasks c = map (\<lambda>(repo, resp). (repo, repoTask Join rh command repo resp))
                     (filter (\<lambda>(repo, resp). ctxDone resp = None) received)"
    by (simp add: c ts)
  have "resultCh c = List.map_filter (\<lambda>(repo, t). sent t) ts" by (simp add: c)
  also have "\<dots> = map (\<lambda>(repo, resp).
          \<lparr>Path = Join (tmpDir rh) (GetName repo), Command = command,
           Stdout = writtenStdout (commandOutcome resp),
           Stderr = writtenStderr (commandOutcome resp),
           Error = cmdError (commandOutcome resp)\<rparr>)
       (filter (\<lambda>(repo, resp). \<not> cloneFails resp)
          (filter (\<lambda>(repo, resp). ctxDone resp = None) received))"
    unfolding ts by (rule map_filter_sent)
  also have "filter (\<lambda>(repo, resp). \<not> cloneFails resp)
               (filter (\<lambda>(repo, resp). ctxDone resp = None) received) =
             filter (\<lambda>(repo, resp). ctxDone resp = None \<and> \<not> cloneFails resp) received"
    by (simp add: case_prod_unfold)
  finally show "resultCh c = map (\<lambda>(repo, resp).
          \<lparr>Path = Join (tmpDir rh) (GetName repo), Command = command,
           Stdout = writtenStdout (commandOutcome resp),
           Stderr = writtenStderr (commandOutcome resp),
           Error = cmdError (commandOutcome resp)\<rparr>)
       (filter (\<lambda>(repo, resp). ctxDone resp = None \<and> \<not> cloneFails resp) received)" .
  show "waitError c = None"
    by (simp add: c ts) (rule errgroupWait_all_None, auto simp: repoTask_returned)
  show "filter isClone (loopLogs c) = []"
    using dispatchLoop_logs [OF d] by (simp add: c)
qed

lemma workCoordinator_returns:
  "concurrency rh \<noteq> 0 \<Longrightarrow> \<exists>c. workCoordinator Join rh command received = Some c"
  by (simp add: workCoordinator_def dispatchLoop_admitting)

lemma Go_returns_discovery_error:
  assumes "\<not> (overwrite rh \<and> removeTmpDir w \<noteq> None)"
    and "\<not> (statTmpDir w = StatNotExist \<and> mkdirTmpDir w \<noteq> None)"
    and "getRepositories MatchString rh (pages w) = Some (evs, repos, discoveryErr)"
    and "concurrency rh \<noteq> 0"
  shows "\<exists>g. Go MatchString Join rh command w = Some g \<and> goError g = discoveryErr"
proof -
  obtain c where c: "workCoordinator Join rh command
                       (zip repos (map (repoResponse w) [0..<length repos])) = Some c"
    using workCoordinator_returns [OF assms(4)] by blast
  have w: "waitError c = None" by (rule workCoordinator_Some(3) [OF c])
  have e: "errgroupWait [discoveryErr, None, None] = discoveryErr"
    by (cases discoveryErr) (simp_all add: errgroupWait_def)
  show ?thesis using assms(1,2,3) c w e
    by (auto simp: Go_def Let_def)
qed

text \<open>
  Claim C1 fails on the code: the task of a repository whose clone fails sends nothing on
  the result channel. Here the one repository received has no directory and its clone
  fails, and the result channel stays empty.
\<close>

theorem clone_failure_emits_no_result_counterexample:
  "cloneFails respCloneFails \<and>
   sent (repoTask demoJoin demoExecutor ''echo hi'' svcA respCloneFails) = None \<and>
   map_option resultCh
     (workCoordinator demoJoin demoExecutor ''echo hi'' [(svcA, respCloneFails)]) = Some []"
  by (simp add: cloneFails_def respCloneFails_def workCoordinator_def repoTask_def
      cloneRepo_def demoExecutor_def Let_def errgroupWait_def)

text \<open>
  Claim C1, amended. When the clone of a repository fails, the run does not abort: the
  task logs the error, runs no command, sends no result and returns no error to the error
  group. The work coordinator goes on with the other repositories: its results are those
  of the same run without the failed repository, and its \<open>Wait\<close> returns no error. \<open>Go\<close>
  returns the error of the discovery stage only (none when discovery succeeds).
\<close>

theorem clone_failure_is_logged_and_skipped:
  assumes "cloneFails resp" and "concurrency rh \<noteq> 0"
  shows "repoTask Join rh command repo resp =
       \<lparr>taskEvents =
          [Stat (Join (tmpDir rh) (GetName repo)),
           PlainClone (Join (tmpDir rh) (GetName repo)) (GetCloneURL repo) (cloneAuth rh),
           LogError ''error cloning repository''],
        sent = None, returned = None\<rparr> \<and>
     (\<exists>c c'. workCoordinator Join rh command (pre @ (repo, resp) # post) = Some c \<and>
        workCoordinator Join rh command (pre @ post) = Some c' \<and>
        resultCh c = resultCh c' \<and> waitError c = None) \<and>
     (\<not> (overwrite rh \<and> removeTmpDir w \<noteq> None) \<and>
      \<not> (statTmpDir w = StatNotExist \<and> mkdirTmpDir w \<noteq> None) \<and>
      getRepositories MatchString rh (pages w) = Some (evs, repos, discoveryErr) \<and>
      k < length repos \<and> repoResponse w k = resp \<longrightarrow>
        (\<exists>g. Go MatchString Join rh command w = Some g \<and> goError g = discoveryErr))"
proof (intro conjI impI)
  show "repoTask Join rh command repo resp =
       \<lparr>taskEvents =
          [Stat (Join (tmpDir rh) (GetName repo)),
           PlainClone (Join (tmpDir rh) (GetName repo)) (GetCloneURL repo) (cloneAuth rh),
           LogError ''error cloning repository''],
        sent = None, returned = None\<rparr>"
    using assms(1) by (rule repoTask_cloneFails)
next
  obtain c c' where c: "workCoordinator Join rh command (pre @ (repo, resp) # post) = Some c"
    and c': "workCoordinator Join rh command (pre @ post) = Some c'"
    using workCoordinator_returns [OF assms(2)] by metis
  have "resultCh c = resultCh c'"
    using workCoordinator_Some(2) [OF c] workCoordinator_Some(2) [OF c'] assms(1) by simp
  moreover have "waitError c = None" by (rule workCoordinator_Some(3) [OF c])
  ultimately show "\<exists>c c'. workCoordinator Join rh command (pre @ (repo, resp) # post) = Some c \<and>
        workCoordinator Join rh command (pre @ post) = Some c' \<and>
        resultCh c = resultCh c' \<and> waitError c = None"
    using c c' by blast
next
  assume "\<not> (overwrite rh \<and> removeTmpDir w \<noteq> None) \<and>
      \<not> (statTmpDir w = StatNotExist \<and> mkdirTmpDir w \<noteq> None) \<and>
      getRepositories MatchString rh (pages w) = Some (evs, repos, discoveryErr) \<and>
      k < length repos \<and> repoResponse w k = resp"
  then show "\<exists>g. Go MatchString Join rh command w = Some g \<and> goError g = discoveryErr"
    using Go_returns_discovery_error [of rh w MatchString evs repos discoveryErr Join command]
      assms(2) by blast
qed

theorem clone_failure_is_logged_and_skipped_witness:
  "cloneFails respCloneFails \<and> concurrency demoExecutor \<noteq> 0 \<and>
   sent (repoTask demoJoin demoExecutor ''echo hi'' svcA respCloneFails) = None \<and>
   getRepositories startsWith demoExecutor (pages demoWorld) =
     Some ([ListRepos (ListByOrg ''acme'') 0, ListRepos (ListByOrg ''acme'') 2],
           [svcA, svcC], None) \<and>
   repoResponse demoWorld 0 = respCloneFails \<and>
   (\<exists>g. Go startsWith demoJoin demoExecutor ''echo hi'' demoWorld = Some g \<and> goError g = None)"
proof -
  have f: "cloneFails respCloneFails" by (simp add: cloneFails_def respCloneFails_def)
  have n: "concurrency demoExecutor \<noteq> 0" by (simp add: demoExecutor_def)
  have d: "getRepositories startsWith demoExecutor (pages demoWorld) =
     Some ([ListRepos (ListByOrg ''acme'') 0, ListRepos (ListByOrg ''acme'') 2],
           [svcA, svcC], None)"
    by (simp add: getRepositories_def getRepositoriesForOrg_def demoExecutor_def demoWorld_def
        demoPages_def svcA_def svcB_def svcC_def matchRepo_def GetName_def)
  have s: "\<not> (overwrite demoExecutor \<and> removeTmpDir demoWorld \<noteq> None) \<and>
      \<not> (statTmpDir demoWorld = StatNotExist \<and> mkdirTmpDir demoWorld \<noteq> None) \<and>
      (0::nat) < length [svcA, svcC] \<and> repoResponse demoWorld 0 = respCloneFails"
    by (simp add: demoExecutor_def demoWorld_def)
  show ?thesis
    using clone_failure_is_logged_and_skipped
      [OF f n, where Join = demoJoin and command = "''echo hi''" and repo = svcA
         and pre = "[]" and post = "[(svcC, respCommandFails)]" and w = demoWorld
         and MatchString = startsWith
         and evs = "[ListRepos (ListByOrg ''acme'') 0, ListRepos (ListByOrg ''acme'') 2]"
         and repos = "[svcA, svcC]" and discoveryErr = None and k = 0]
      f n d s
    by simp
qed

text \<open>
  Claim C2 fails on the code: two repositories are dispatched, the clone of the first
  fails, and the result channel receives one result.
\<close>

theorem result_count_counterexample:
  "map_option (length \<circ> dispatched)
     (workCoordinator demoJoin demoExecutor ''echo hi''
        [(svcA, respCloneFails), (svcC, respCommandFails)]) = Some 2 \<and>
   map_option (length \<circ> resultCh)
     (workCoordinator demoJoin demoExecutor ''echo hi''
        [(svcA, respCloneFails), (svcC, respCommandFails)]) = Some 1"
  by (simp add: respCloneFails_def respCommandFails_def workCoordinator_def repoTask_def
      cloneRepo_def execCommand_def demoExecutor_def Let_def errgroupWait_def dispatched_def)

text \<open>
  Claim C2, amended. The repositories dispatched are those received while the context is
  not done. The result channel receives exactly one result for each dispatched repository
  that reaches the command (its directory is there, or its clone succeeds) and none for a
  dispatched repository whose clone fails; no repository contributes two. So the number
  of results plus the number of dispatched repositories whose clone failed is the number
  of dispatched repositories. The results are compared as a multiset: the program
  delivers them in completion order.
\<close>

theorem one_result_per_repository_reaching_the_command:
  assumes "concurrency rh \<noteq> 0"
  shows "\<exists>c. workCoordinator Join rh command received = Some c \<and>
     dispatched c = map fst (filter (\<lambda>(repo, resp). ctxDone resp = None) received) \<and>
     mset (resultCh c) =
       mset (map (\<lambda>(repo, resp).
                    \<lparr>Path = Join (tmpDir rh) (GetName repo), Command = command,
                     Stdout = writtenStdout (commandOutcome resp),
                     Stderr = writtenStderr (commandOutcome resp),
                     Error = cmdError (commandOutcome resp)\<rparr>)
               (filter (\<lambda>(repo, resp). ctxDone resp = None \<and> \<not> cloneFails resp) received)) \<and>
     length (resultCh c) +
       length (filter (\<lambda>(repo, resp). ctxDone resp = None \<and> cloneFails resp) received) =
       length (dispatched c)"
proof -
  obtain c where c: "workCoordinator Join rh command received = Some c"
    using workCoordinator_returns [OF assms] by blast
  have d: "dispatched c = map fst (filter (\<lambda>(repo, resp). ctxDone resp = None) received)"
    using workCoordinator_Some(1) [OF c]
    by (simp add: dispatched_def comp_def case_prod_unfold)
  note r = workCoordinator_Some(2) [OF c]
  have "length (filter (\<lambda>(repo, resp). ctxDone resp = None \<and> \<not> cloneFails resp) xs) +
        length (filter (\<lambda>(repo, resp). ctxDone resp = None \<and> cloneFails resp) xs) =
        length (filter (\<lambda>(repo, resp). ctxDone resp = None) xs)"
    for xs :: "(Repository \<times> RepoResponse) list"
    by (induction xs) auto
  then have "length (resultCh c) +
       length (filter (\<lambda>(repo, resp). ctxDone resp = None \<and> cloneFails resp) received) =
       length (dispatched c)"
    by (simp add: r d)
  with c d r show ?thesis by simp
qed

theorem one_result_per_repository_witness:
  "concurrency demoExecutor \<noteq> 0 \<and>
   (\<exists>c. workCoordinator demoJoin demoExecutor ''echo hi''
           [(svcA, respCloneFails), (svcC, respCommandFails), (svcB, respPresent)] = Some c \<and>
        dispatched c = [svcA, svcC, svcB] \<and>
        resultCh c =
          [\<lparr>Path = ''tmp/svc-c'', Command = ''echo hi'', Stdout = [], Stderr = ''boom'',
            Error = Some ''exit status 1''\<rparr>,
           \<lparr>Path = ''tmp/svc-b'', Command = ''echo hi'', Stdout = ''hi'', Stderr = [],
            Error = None\<rparr>])"
proof -
  have n: "concurrency demoExecutor \<noteq> 0" by (simp add: demoExecutor_def)
  show ?thesis
    using one_result_per_repository_reaching_the_command
      [OF n, where Join = demoJoin and command = "''echo hi''"
         and received = "[(svcA, respCloneFails), (svcC, respCommandFails), (svcB, respPresent)]"]
      n
    by (simp add: respCloneFails_def respCommandFails_def respPresent_def workCoordinator_def
        repoTask_def cloneRepo_def execCommand_def demoExecutor_def demoJoin_def Let_def
        errgroupWait_def dispatched_def svcA_def svcB_def svcC_def GetName_def)
qed

text \<open>
  Claim C6. For a dispatched repository that reaches the command, the task runs the shell
  of the configuration with the arguments \<open>-c\<close> and the command string, in the directory
  of the repository, once. Everything the command wrote to its standard output and
  standard error is in the result, and so is the error of the run (a non-zero exit
  included). The task returns no error to the error group, the work coordinator delivers
  the result between those of the repositories before and after it and its \<open>Wait\<close>
  returns no error, and \<open>Go\<close> returns the error of the discovery stage only.
\<close>

theorem command_failure_is_recorded_and_not_fatal:
  assumes "ctxDone resp = None" and "\<not> cloneFails resp" and "concurrency rh \<noteq> 0"
  shows "filter isRunCommand (taskEvents (repoTask Join rh command repo resp)) =
       [RunCommand (shellPath rh) [''-c'', command] (Join (tmpDir rh) (GetName repo))] \<and>
     sent (repoTask Join rh command repo resp) =
       Some \<lparr>Path = Join (tmpDir rh) (GetName repo), Command = command,
             Stdout = writtenStdout (commandOutcome resp),
             Stderr = writtenStderr (commandOutcome resp),
             Error = cmdError (commandOutcome resp)\<rparr> \<and>
     returned (repoTask Join rh command repo resp) = None \<and>
     (\<exists>c c1 c2. workCoordinator Join rh command (pre @ (repo, resp) # post) = Some c \<and>
        workCoordinator Join rh command pre = Some c1 \<and>
        workCoordinator Join rh command post = Some c2 \<and>
        resultCh c =
          resultCh c1 @
          \<lparr>Path = Join (tmpDir rh) (GetName repo), Command = command,
           Stdout = writtenStdout (commandOutcome resp),
           Stderr = writtenStderr (commandOutcome resp),
           Error = cmdError (commandOutcome resp)\<rparr> # resultCh c2 \<and>
        waitError c = None) \<and>
     (\<not> (overwrite rh \<and> removeTmpDir w \<noteq> None) \<and>
      \<not> (statTmpDir w = StatNotExist \<and> mkdirTmpDir w \<noteq> None) \<and>
      getRepositories MatchString rh (pages w) = Some (evs, repos, discoveryErr) \<and>
      k < length repos \<and> repoResponse w k = resp \<longrightarrow>
        (\<exists>g. Go MatchString Join rh command w = Some g \<and> goError g = discoveryErr))"
proof (intro conjI impI)
  show "filter isRunCommand (taskEvents (repoTask Join rh command repo resp)) =
       [RunCommand (shellPath rh) [''-c'', command] (Join (tmpDir rh) (GetName repo))]"
    using assms(2) by (rule repoTask_run_events)
next
  show "sent (repoTask Join rh command repo resp) =
       Some \<lparr>Path = Join (tmpDir rh) (GetName repo), Command = command,
             Stdout = writtenStdout (commandOutcome resp),
             Stderr = writtenStderr (commandOutcome resp),
             Error = cmdError (commandOutcome resp)\<rparr>"
    using assms(2) by (rule repoTask_sent)
next
  show "returned (repoTask Join rh command repo resp) = None"
    by (rule repoTask_returned)
next
  obtain c c1 c2 where c: "workCoordinator Join rh command (pre @ (repo, resp) # post) = Some c"
    and c1: "workCoordinator Join rh command pre = Some c1"
    and c2: "workCoordinator Join rh command post = Some c2"
    using workCoordinator_returns [OF assms(3)] by metis
  have "resultCh c =
          resultCh c1 @
          \<lparr>Path = Join (tmpDir rh) (GetName repo), Command = command,
           Stdout = writtenStdout (commandOutcome resp),
           Stderr = writtenStderr (commandOutcome resp),
           Error = cmdError (commandOutcome resp)\<rparr> # resultCh c2"
    using workCoordinator_Some(2) [OF c] workCoordinator_Some(2) [OF c1]
      workCoordinator_Some(2) [OF c2] assms(1,2)
    by simp
  moreover have "waitError c = None" by (rule workCoordinator_Some(3) [OF c])
  ultimately show "\<exists>c c1 c2. workCoordinator Join rh command (pre @ (repo, resp) # post) = Some c \<and>
        workCoordinator Join rh command pre = Some c1 \<and>
        workCoordinator Join rh command post = Some c2 \<and>
        resultCh c =
          resultCh c1 @
          \<lparr>Path = Join (tmpDir rh) (GetName repo), Command = command,
           Stdout = writtenStdout (commandOutcome resp),
           Stderr = writtenStderr (commandOutcome resp),
           Error = cmdError (commandOutcome resp)\<rparr> # resultCh c2 \<and>
        waitError c = None"
    using c c1 c2 by blast
next
  assume "\<not> (overwrite rh \<and> removeTmpDir w \<noteq> None) \<and>
      \<not> (statTmpDir w = StatNotExist \<and> mkdirTmpDir w \<noteq> None) \<and>
      getRepositories MatchString rh (pages w) = Some (evs, repos, discoveryErr) \<and>
      k < length repos \<and> repoResponse w k = resp"
  then show "\<exists>g. Go MatchString Join rh command w = Some g \<and> goError g = discoveryErr"
    using Go_returns_discovery_error [of rh w MatchString evs repos discoveryErr Join command]
      assms(3) by blast
qed

theorem command_failure_is_recorded_witness:
  "ctxDone respCommandFails = None \<and> \<not> cloneFails respCommandFails \<and>
   concurrency demoExecutor \<noteq> 0 \<and>
   cmdError (commandOutcome respCommandFails) = Some ''exit status 1'' \<and>
   filter isRunCommand (taskEvents (repoTask demoJoin demoExecutor ''echo hi'' svcC respCommandFails)) =
     [RunCommand ''/bin/sh'' [''-c'', ''echo hi''] ''tmp/svc-c''] \<and>
   sent (repoTask demoJoin demoExecutor ''echo hi'' svcC respCommandFails) =
     Some \<lparr>Path = ''tmp/svc-c'', Command = ''echo hi'', Stdout = [], Stderr = ''boom'',
           Error = Some ''exit status 1''\<rparr> \<and>
   repoResponse demoWorld 1 = respCommandFails \<and>
   (\<exists>g. Go startsWith demoJoin demoExecutor ''echo hi'' demoWorld = Some g \<and> goError g = None)"
proof -
  have a: "ctxDone respCommandFails = None" by (simp add: respCommandFails_def)
  have f: "\<not> cloneFails respCommandFails" by (simp add: cloneFails_def respCommandFails_def)
  have n: "concurrency demoExecutor \<noteq> 0" by (simp add: demoExecutor_def)
  have e: "cmdError (commandOutcome respCommandFails) = Some ''exit status 1''"
    by (simp add: respCommandFails_def)
  have d: "getRepositories startsWith demoExecutor (pages demoWorld) =
     Some ([ListRepos (ListByOrg ''acme'') 0, ListRepos (ListByOrg ''acme'') 2],
           [svcA, svcC], None)"
    by (simp add: getRepositories_def getRepositoriesForOrg_def demoExecutor_def demoWorld_def
        demoPages_def svcA_def svcB_def svcC_def matchRepo_def GetName_def)
  have s: "\<not> (overwrite demoExecutor \<and> removeTmpDir demoWorld \<noteq> None) \<and>
      \<not> (statTmpDir demoWorld = StatNotExist \<and> mkdirTmpDir demoWorld \<noteq> None) \<and>
      (1::nat) < length [svcA, svcC] \<and> repoResponse demoWorld 1 = respCommandFails"
    by (simp add: demoExecutor_def demoWorld_def)
  have v: "shellPath demoExecutor = ''/bin/sh'' \<and>
           demoJoin (tmpDir demoExecutor) (GetName svcC) = ''tmp/svc-c'' \<and>
           commandOutcome respCommandFails =
             \<lparr>writtenStdout = [], writtenStderr = ''boom'', cmdError = Some ''exit status 1''\<rparr>"
    by (simp add: demoExecutor_def demoJoin_def svcC_def GetName_def respCommandFails_def)
  show ?thesis
    using command_failure_is_recorded_and_not_fatal
      [OF a f n, where Join = demoJoin and command = "''echo hi''" and repo = svcC
         and pre = "[(svcA, respCloneFails)]" and post = "[]" and w = demoWorld
         and MatchString = startsWith
         and evs = "[ListRepos (ListByOrg ''acme'') 0, ListRepos (ListByOrg ''acme'') 2]"
         and repos = "[svcA, svcC]" and discoveryErr = None and k = 1]
      a f n e d s v
    by simp
qed

text \<open>
  Claim C7. A task issues no clone when \<open>os.Stat\<close> does not report the directory of the
  repository as missing, and exactly one clone, into that directory, when it does. In a run
  of the work coordinator the clones are exactly one for each dispatched repository whose
  directory was reported missing, so no dispatched repository is cloned twice.
\<close>

theorem clone_only_when_directory_missing:
  "(statRepoDir resp \<noteq> StatNotExist \<longrightarrow>
      filter isClone (taskEvents (repoTask Join rh command repo resp)) = []) \<and>
   (statRepoDir resp = StatNotExist \<longrightarrow>
      filter isClone (taskEvents (repoTask Join rh command repo resp)) =
        [PlainClone (Join (tmpDir rh) (GetName repo)) (GetCloneURL repo) (cloneAuth rh)]) \<and>
   (concurrency rh \<noteq> 0 \<longrightarrow>
      (\<exists>c. workCoordinator Join rh command received = Some c \<and>
         filter isClone (coordinatorEvents c) =
           map (\<lambda>(repo, resp).
                  PlainClone (Join (tmpDir rh) (GetName repo)) (GetCloneURL repo) (cloneAuth rh))
             (filter (\<lambda>(repo, resp). ctxDone resp = None \<and> statRepoDir resp = StatNotExist)
                received)))"
proof (intro conjI impI)
  assume "statRepoDir resp \<noteq> StatNotExist"
  then show "filter isClone (taskEvents (repoTask Join rh command repo resp)) = []"
    by (simp add: repoTask_clone_events)
next
  assume "statRepoDir resp = StatNotExist"
  then show "filter isClone (taskEvents (repoTask Join rh command repo resp)) =
        [PlainClone (Join (tmpDir rh) (GetName repo)) (GetCloneURL repo) (cloneAuth rh)]"
    by (simp add: repoTask_clone_events)
next
  assume "concurrency rh \<noteq> 0"
  then obtain c where c: "workCoordinator Join rh command received = Some c"
    using workCoordinator_returns by blast
  note t = workCoordinator_Some(1) [OF c]
  have "filter isClone (coordinatorEvents c) =
          filter isClone (concat (map (\<lambda>(repo, t). taskEvents t) (tasks c)))"
    using workCoordinator_Some(4) [OF c] by (simp add: coordinatorEvents_def)
  also have "\<dots> =
          map (\<lambda>(repo, resp).
                 PlainClone (Join (tmpDir rh) (GetName repo)) (GetCloneURL repo) (cloneAuth rh))
            (filter (\<lambda>(repo, resp). statRepoDir resp = StatNotExist)
               (filter (\<lambda>(repo, resp). ctxDone resp = None) received))"
    unfolding t by (rule clone_events_of_tasks)
  also have "filter (\<lambda>(repo, resp). statRepoDir resp = StatNotExist)
               (filter (\<lambda>(repo, resp). ctxDone resp = None) received) =
             filter (\<lambda>(repo, resp). ctxDone resp = None \<and> statRepoDir resp = StatNotExist)
               received"
    by (simp add: case_prod_unfold)
  finally show "\<exists>c. workCoordinator Join rh command received = Some c \<and>
         filter isClone (coordinatorEvents c) =
           map (\<lambda>(repo, resp).
                  PlainClone (Join (tmpDir rh) (GetName repo)) (GetCloneURL repo) (cloneAuth rh))
             (filter (\<lambda>(repo, resp). ctxDone resp = None \<and> statRepoDir resp = StatNotExist)
                received)"
    using c by blast
qed

theorem clone_only_when_directory_missing_witness:
  "statRepoDir respPresent = StatOk \<and>
   filter isClone (taskEvents (repoTask demoJoin demoExecutor ''echo hi'' svcA respPresent)) = [] \<and>
   statRepoDir respCommandFails = StatNotExist \<and>
   filter isClone (taskEvents (repoTask demoJoin demoExecutor ''echo hi'' svcC respCommandFails)) =
     [PlainClone ''tmp/svc-c'' ''https://git.example/acme/svc-c.git'' None] \<and>
   concurrency demoExecutor \<noteq> 0 \<and>
   (\<exists>c. workCoordinator demoJoin demoExecutor ''echo hi''
           [(svcA, respPresent), (svcC, respCommandFails)] = Some c \<and>
        filter isClone (coordinatorEvents c) =
          [PlainClone ''tmp/svc-c'' ''https://git.example/acme/svc-c.git'' None])"
proof -
  have p: "statRepoDir respPresent = StatOk" "statRepoDir respPresent \<noteq> StatNotExist"
    by (simp_all add: respPresent_def)
  have m: "statRepoDir respCommandFails = StatNotExist" by (simp add: respCommandFails_def)
  have n: "concurrency demoExecutor \<noteq> 0" by (simp add: demoExecutor_def)
  have v: "demoJoin (tmpDir demoExecutor) (GetName svcC) = ''tmp/svc-c'' \<and>
           GetCloneURL svcC = ''https://git.example/acme/svc-c.git'' \<and>
           cloneAuth demoExecutor = None \<and> ctxDone respPresent = None \<and>
           ctxDone respCommandFails = None"
    by (simp add: demoExecutor_def demoJoin_def svcC_def GetName_def GetCloneURL_def
        cloneAuth_def respPresent_def respCommandFails_def)
  show ?thesis
    using clone_only_when_directory_missing
      [where resp = respPresent and Join = demoJoin and rh = demoExecutor
         and command = "''echo hi''" and repo = svcA
         and received = "[(svcA, respPresent), (svcC, respCommandFails)]"]
      clone_only_when_directory_missing
      [where resp = respCommandFails and Join = demoJoin and rh = demoExecutor
         and command = "''echo hi''" and repo = svcC and received = "[]"]
      p m n v
    by simp
qed

end
